theory Spec2Isabelle
  imports Complex_Main
begin

section \<open>Values, errors and library calls of \<^verbatim>\<open>simulation_with_jd.py\<close>\<close>

text \<open>
  The two functions of the simulation core are \<^verbatim>\<open>annualize_returns\<close> (lines 201-237) and
  \<^verbatim>\<open>simulate_asset_class_returns_jsu\<close> (lines 241-291). Numbers are numpy floats. They are
  modelled as real numbers together with \<open>NaN\<close>: binary rounding error and overflow to
  infinity are left out, the undefined power (a negative base with a fractional exponent)
  and the mean of an empty list are kept, since numpy returns \<open>nan\<close> for them.
\<close>

datatype npfloat = Num real | NaN

text \<open>
  Every exception the two functions can end with. Line 227 raises the first one;
  \<^verbatim>\<open>np.random.seed\<close> raises a \<^verbatim>\<open>ValueError\<close> of its own for a seed outside \<open>0 .. 2^32 - 1\<close>;
  \<^verbatim>\<open>periods_per_year / n_periods\<close> on two Python ints raises \<^verbatim>\<open>ZeroDivisionError\<close>; the last
  one stands for whatever \<^verbatim>\<open>stats.johnsonsu.fit\<close> raises.
\<close>

datatype error =
    ValueError_unsupported_frequency
  | ValueError_seed
  | ZeroDivisionError
  | FitError

subsection \<open>numpy arithmetic\<close>

text \<open>
  \<^verbatim>\<open>compounded_growth ** (periods_per_year / n_periods)\<close>. The exponent formed at line 234 is
  always positive (a positive constant over a positive row count), and this is numpy's
  power for a positive exponent \<open>y\<close>: a positive base gives the real power, base zero
  gives zero, a negative base gives the integer power when \<open>y\<close> is integral and \<open>nan\<close>
  otherwise.
\<close>

definition np_power :: "real \<Rightarrow> real \<Rightarrow> npfloat" where
  "np_power x y =
     (if 0 < x then Num (x powr y)
      else if x = 0 then Num 0
      else if of_int \<lfloor>y\<rfloor> = y then Num (x ^ nat \<lfloor>y\<rfloor>)
      else NaN)"

definition np_sub :: "npfloat \<Rightarrow> real \<Rightarrow> npfloat" where
  "np_sub v c = (case v of Num x \<Rightarrow> Num (x - c) | NaN \<Rightarrow> NaN)"

definition np_mul :: "npfloat \<Rightarrow> real \<Rightarrow> npfloat" where
  "np_mul v c = (case v of Num x \<Rightarrow> Num (x * c) | NaN \<Rightarrow> NaN)"

text \<open>\<^verbatim>\<open>np.rint\<close>: the nearest integer, a tie going to the even neighbour.\<close>

definition rint :: "real \<Rightarrow> real" where
  "rint x =
     (let f = \<lfloor>x\<rfloor>; d = x - of_int f
      in if d < 1 / 2 then of_int f
         else if 1 / 2 < d then of_int (f + 1)
         else if even f then of_int f else of_int (f + 1))"

text \<open>\<^verbatim>\<open>np.round(v, decimals)\<close>: scale by \<open>10 ^ decimals\<close>, \<open>rint\<close>, scale back.\<close>

definition np_round :: "npfloat \<Rightarrow> nat \<Rightarrow> npfloat" where
  "np_round v decimals =
     (case v of Num x \<Rightarrow> Num (rint (x * 10 ^ decimals) / 10 ^ decimals) | NaN \<Rightarrow> NaN)"

fun nums :: "npfloat list \<Rightarrow> real list option" where
  "nums [] = Some []"
| "nums (Num x # vs) = (case nums vs of None \<Rightarrow> None | Some xs \<Rightarrow> Some (x # xs))"
| "nums (NaN # vs) = None"

text \<open>
  \<^verbatim>\<open>np.mean\<close> of a list: \<open>nan\<close> for the empty list (numpy only warns) and as soon as one
  element is \<open>nan\<close>, the arithmetic mean otherwise.
\<close>

definition np_mean :: "npfloat list \<Rightarrow> npfloat" where
  "np_mean vs =
     (if vs = [] then NaN
      else case nums vs of None \<Rightarrow> NaN | Some xs \<Rightarrow> Num (sum_list xs / real (length xs)))"

section \<open>The annualizer\<close>

text \<open>
  \<^verbatim>\<open>annualize_returns(returns, frequency)\<close> on one column of period returns. The frequency
  chain of lines 220-227 comes first; then the product of \<open>returns + 1\<close>, the row count, the
  division \<^verbatim>\<open>periods_per_year / n_periods\<close> (which raises on an empty column), the power
  minus one, and line 237: times 100, rounded to two decimals.
\<close>

definition annualize_with :: "nat \<Rightarrow> real list \<Rightarrow> error + npfloat" where
  "annualize_with periods_per_year returns =
     (let compounded_growth = prod_list (map (\<lambda>r. r + 1) returns);
          n_periods = length returns
      in if n_periods = 0 then Inl ZeroDivisionError
         else let annualized_returns =
                    np_sub (np_power compounded_growth
                              (real periods_per_year / real n_periods)) 1
              in Inr (np_round (np_mul annualized_returns 100) 2))"

definition annualize_returns :: "real list \<Rightarrow> string \<Rightarrow> error + npfloat" where
  "annualize_returns returns frequency =
     (if frequency = ''M'' then annualize_with 12 returns
      else if frequency = ''D'' then annualize_with 252 returns
      else if frequency = ''Q'' then annualize_with 4 returns
      else Inl ValueError_unsupported_frequency)"

text \<open>
  The annualization formula in the specification's words: the product over all periods of
  \<open>1 + period_return\<close>, raised to the power \<open>periods_per_year / n\<close>, minus 1. It is the
  yardstick the source function is compared with, not part of the program.
\<close>

definition spec_annualize :: "real list \<Rightarrow> nat \<Rightarrow> real" where
  "spec_annualize path periods_per_year =
     prod_list (map (\<lambda>r. 1 + r) path) powr (real periods_per_year / real (length path)) - 1"

section \<open>The orchestrator\<close>

text \<open>
  The library calls the orchestrator makes are parameters of the model:
  \<^verbatim>\<open>stats.johnsonsu.fit\<close> (a pure function of the sample; \<open>None\<close> when it raises),
  \<^verbatim>\<open>stats.johnsonsu.rvs\<close> (it reads and advances numpy's process-wide generator, of state
  type \<open>'g\<close>) and the state \<^verbatim>\<open>np.random.seed\<close> installs for an accepted seed.
\<close>

type_synonym jsu_params = "real \<times> real \<times> real \<times> real"

record 'g scipy =
  johnsonsu_fit :: "real list \<Rightarrow> jsu_params option"
  johnsonsu_rvs :: "jsu_params \<Rightarrow> nat \<Rightarrow> 'g \<Rightarrow> real list \<times> 'g"
  seed_state :: "int \<Rightarrow> 'g"

text \<open>
  What a run has done so far: the generator state, and the library calls made, in order
  (the asset class fitted, the \<^verbatim>\<open>size\<close> requested from the sampler).
\<close>

datatype event = FitCall string | RvsCall nat

record 'g state =
  rng :: 'g
  calls :: "event list"

text \<open>
  The input table: labelled columns in column order, a missing value being \<open>None\<close>. The
  output table: one \<^verbatim>\<open>'Expected Return'\<close> cell per index label, in index order.
\<close>

type_synonym returns_table = "(string \<times> real option list) list"
type_synonym expected_table = "(string \<times> npfloat) list"

definition dropna :: "real option list \<Rightarrow> real list" where
  "dropna col = List.map_filter (\<lambda>x. x) col"

text \<open>\<^verbatim>\<open>expected_returns.loc[asset, 'Expected Return'] = v\<close>\<close>

definition loc_set :: "expected_table \<Rightarrow> string \<Rightarrow> npfloat \<Rightarrow> expected_table" where
  "loc_set tbl asset v = map (\<lambda>(a, old). if a = asset then (a, v) else (a, old)) tbl"

text \<open>\<^verbatim>\<open>np.random.seed(random_seed)\<close>, run only when a seed is given (lines 257-258).\<close>

definition np_random_seed :: "'g scipy \<Rightarrow> int option \<Rightarrow> 'g \<Rightarrow> error + 'g" where
  "np_random_seed lib random_seed g =
     (case random_seed of
        None \<Rightarrow> Inr g
      | Some s \<Rightarrow> if 0 \<le> s \<and> s < 2 ^ 32 then Inr (seed_state lib s)
                 else Inl ValueError_seed)"

text \<open>
  The loop of lines 275-286, \<open>k\<close> iterations to go: sample \<^verbatim>\<open>num_years * 12\<close> values,
  annualize them, append the result to \<^verbatim>\<open>avg_annualized_returns\<close>. An exception of the
  annualizer ends the loop, with the state as it was then.
\<close>

fun run_simulations ::
  "'g scipy \<Rightarrow> jsu_params \<Rightarrow> nat \<Rightarrow> string \<Rightarrow> nat \<Rightarrow> npfloat list \<Rightarrow> 'g state
     \<Rightarrow> (error + npfloat list) \<times> 'g state" where
  "run_simulations lib p num_years frequency 0 avg_annualized_returns st =
     (Inr avg_annualized_returns, st)"
| "run_simulations lib p num_years frequency (Suc k) avg_annualized_returns st =
     (let (sampled_returns, g') = johnsonsu_rvs lib p (num_years * 12) (rng st);
          st' = \<lparr>rng = g', calls = calls st @ [RvsCall (num_years * 12)]\<rparr>
      in case annualize_returns sampled_returns frequency of
           Inl e \<Rightarrow> (Inl e, st')
         | Inr avg_annualized_return \<Rightarrow>
             run_simulations lib p num_years frequency k
               (avg_annualized_returns @ [avg_annualized_return]) st')"

text \<open>
  The loop of lines 264-289 over the remaining columns: drop the missing values, fit once,
  run the simulations, store the rounded mean. Nothing catches an exception, so the first
  one ends the run.
\<close>

fun simulate_assets ::
  "'g scipy \<Rightarrow> returns_table \<Rightarrow> nat \<Rightarrow> nat \<Rightarrow> string \<Rightarrow> expected_table \<Rightarrow> 'g state
     \<Rightarrow> (error + expected_table) \<times> 'g state" where
  "simulate_assets lib [] num_simulations num_years frequency expected_returns st =
     (Inr expected_returns, st)"
| "simulate_assets lib ((asset, col) # rest) num_simulations num_years frequency
     expected_returns st =
     (let ac_returns = dropna col;
          st1 = \<lparr>rng = rng st, calls = calls st @ [FitCall asset]\<rparr>
      in case johnsonsu_fit lib ac_returns of
           None \<Rightarrow> (Inl FitError, st1)
         | Some p \<Rightarrow>
             (case run_simulations lib p num_years frequency num_simulations [] st1 of
                (Inl e, st2) \<Rightarrow> (Inl e, st2)
              | (Inr avg_annualized_returns, st2) \<Rightarrow>
                  simulate_assets lib rest num_simulations num_years frequency
                    (loc_set expected_returns asset
                       (np_round (np_mean avg_annualized_returns) 2)) st2))"

text \<open>
  \<^verbatim>\<open>simulate_asset_class_returns_jsu\<close>, started with the generator in state \<open>g\<close> and no call
  made yet. The counts are natural numbers (a negative \<^verbatim>\<open>num_simulations\<close> runs the loop
  zero times, as 0 does). The new frame of line 261 holds \<open>nan\<close> in every cell.
\<close>

definition simulate_asset_class_returns_jsu ::
  "'g scipy \<Rightarrow> returns_table \<Rightarrow> nat \<Rightarrow> nat \<Rightarrow> string \<Rightarrow> int option \<Rightarrow> 'g
     \<Rightarrow> (error + expected_table) \<times> 'g state" where
  "simulate_asset_class_returns_jsu lib returns num_simulations num_years frequency
     random_seed g =
     (case np_random_seed lib random_seed g of
        Inl e \<Rightarrow> (Inl e, \<lparr>rng = g, calls = []\<rparr>)
      | Inr g0 \<Rightarrow>
          simulate_assets lib returns num_simulations num_years frequency
            (map (\<lambda>(asset, col). (asset, NaN)) returns) \<lparr>rng = g0, calls = []\<rparr>)"

subsection \<open>A small library double for concrete runs\<close>

text \<open>
  The generator state is a counter. A fit needs two observations; a sample of \<open>n\<close>
  values is the counter followed by zeros, and advances the counter by one.
\<close>

definition counter_lib :: "nat scipy" where
  "counter_lib =
     \<lparr>johnsonsu_fit = (\<lambda>xs. if length xs < 2 then None else Some (0, 1, 0, 1)),
      johnsonsu_rvs = (\<lambda>p n g. (if n = 0 then [] else real g # replicate (n - 1) 0, Suc g)),
      seed_state = (\<lambda>s. nat s)\<rparr>"

text \<open>
  The paths the loop of lines 275-286 draws when no annualization fails: \<open>k\<close> calls of the
  sampler in sequence (line 277), each starting from the generator state the previous one
  left. The result is the list of paths, first drawn first, and the final generator state.
\<close>

fun sample_paths ::
  "'g scipy \<Rightarrow> jsu_params \<Rightarrow> nat \<Rightarrow> nat \<Rightarrow> 'g \<Rightarrow> real list list \<times> 'g" where
  "sample_paths lib p n_values 0 g = ([], g)"
| "sample_paths lib p n_values (Suc k) g =
     (let sampled = johnsonsu_rvs lib p n_values g;
          later = sample_paths lib p n_values k (snd sampled)
      in (fst sampled # fst later, snd later))"

text \<open>
  The generator state once the loop of lines 264-289 is through the given columns: each
  column is fitted and \<open>num_simulations\<close> paths are drawn for it, one column after the other.
\<close>

fun rng_after :: "'g scipy \<Rightarrow> returns_table \<Rightarrow> nat \<Rightarrow> nat \<Rightarrow> 'g \<Rightarrow> 'g" where
  "rng_after lib [] num_simulations num_years g = g"
| "rng_after lib ((asset, col) # rest) num_simulations num_years g =
     (case johnsonsu_fit lib (dropna col) of
        None \<Rightarrow> g
      | Some p \<Rightarrow>
          rng_after lib rest num_simulations num_years
            (snd (sample_paths lib p (num_years * 12) num_simulations g)))"

section \<open>Properties of the arithmetic\<close>

lemmas run_defs =
  simulate_asset_class_returns_jsu_def np_random_seed_def counter_lib_def dropna_def
  List.map_filter_def annualize_returns_def annualize_with_def np_power_def np_sub_def
  np_mul_def np_round_def rint_def np_mean_def loc_set_def Let_def

lemma rint_of_int: "rint (of_int k) = of_int k"
  by (simp add: rint_def)

lemma rint_zero: "rint 0 = 0"
  using rint_of_int [of 0] by simp

lemma rint_is_int: "rint x \<in> \<int>"
  by (simp add: rint_def Let_def)

lemma rint_rint: "rint (rint x) = rint x"
proof -
  obtain k where "rint x = of_int k"
    using rint_is_int [of x] by (auto elim: Ints_cases)
  then show ?thesis by (simp add: rint_of_int)
qed

lemma np_round_idem: "np_round (np_round v d) d = np_round v d"
  by (cases v) (simp_all add: np_round_def rint_rint)

lemma np_round_nan: "np_round (np_mean []) 2 = NaN"
  by (simp add: np_mean_def np_round_def)

lemma prod_list_all_one:
  "(\<And>r. r \<in> set rs \<Longrightarrow> r = (0::real)) \<Longrightarrow> prod_list (map (\<lambda>r. r + 1) rs) = 1"
  by (induction rs) auto

section \<open>Properties of the annualizer\<close>

lemma annualize_with_rounded: "annualize_with p path = Inr r \<Longrightarrow> np_round r 2 = r"
  by (auto simp: annualize_with_def Let_def np_round_idem split: if_splits)

lemma annualize_returns_rounded: "annualize_returns path f = Inr r \<Longrightarrow> np_round r 2 = r"
  by (auto simp: annualize_returns_def annualize_with_rounded split: if_splits)

lemma annualize_with_nonneg:
  assumes "path \<noteq> []" and "0 \<le> prod_list (map (\<lambda>r. r + 1) path)"
  shows "annualize_with p path = Inr (np_round (Num (100 * spec_annualize path p)) 2)"
proof -
  have e: "(\<lambda>r. 1 + r) = (\<lambda>r::real. r + 1)"
    by (simp add: fun_eq_iff)
  show ?thesis
    using assms
    by (simp add: annualize_with_def Let_def np_power_def np_sub_def np_mul_def
        spec_annualize_def e mult.commute)
qed

lemma annualize_with_defined: "path \<noteq> [] \<Longrightarrow> \<exists>v. annualize_with p path = Inr v"
  by (simp add: annualize_with_def Let_def)

lemma annualize_with_total_loss:
  assumes "- 1 \<in> set path"
  shows "annualize_with p path = Inr (Num (- 100))"
proof -
  have "path \<noteq> []"
    using assms by auto
  moreover have "prod_list (map (\<lambda>r. r + 1) path) = 0"
    using assms by (auto simp: prod_list_zero_iff image_iff intro!: bexI [of _ "- 1"])
  moreover have "rint (- 10000) = - 10000"
    using rint_of_int [of "- 10000"] by simp
  ultimately show ?thesis
    by (simp add: annualize_with_def Let_def np_power_def np_sub_def np_mul_def np_round_def)
qed

section \<open>Properties of the two loops\<close>

lemma loc_set_keys: "map fst (loc_set tbl a v) = map fst tbl"
  by (induction tbl) (auto simp: loc_set_def)

lemma loc_set_cases:
  "(a, v) \<in> set (loc_set tbl asset w) \<Longrightarrow>
     (a = asset \<and> v = w) \<or> (a \<noteq> asset \<and> (a, v) \<in> set tbl)"
  by (auto simp: loc_set_def split: if_splits)

lemma loc_set_all_nan: "\<forall>e \<in> set tbl. snd e = NaN \<Longrightarrow> loc_set tbl asset NaN = tbl"
  by (induction tbl) (auto simp: loc_set_def)

lemma run_simulations_unsupported:
  assumes "frequency \<noteq> ''M''" and "frequency \<noteq> ''D''" and "frequency \<noteq> ''Q''"
  shows "run_simulations lib p num_years frequency (Suc k) acc st =
    (Inl ValueError_unsupported_frequency,
     \<lparr>rng = snd (johnsonsu_rvs lib p (num_years * 12) (rng st)),
      calls = calls st @ [RvsCall (num_years * 12)]\<rparr>)"
  using assms by (simp add: annualize_returns_def split: prod.splits)

text \<open>
  A loop that ends normally has appended, in order, the annualizer's results on the paths
  of \<open>sample_paths\<close>, and leaves the generator where \<open>sample_paths\<close> does. The accumulator and
  the state change from call to call, so both are generalised.
\<close>

lemma length_sample_paths: "length (fst (sample_paths lib p m k g)) = k"
  by (induction k arbitrary: g) (simp_all add: Let_def)

lemma run_simulations_sampled:
  assumes "run_simulations lib p y f k acc st = (Inr rates, st')"
  shows "\<exists>vals. rates = acc @ vals \<and>
           map (\<lambda>path. annualize_returns path f) (fst (sample_paths lib p (y * 12) k (rng st))) =
             map Inr vals \<and>
           rng st' = snd (sample_paths lib p (y * 12) k (rng st))"
  using assms
proof (induction k arbitrary: acc st)
  case 0
  then show ?case by auto
next
  case (Suc k)
  obtain sampled g' where s: "johnsonsu_rvs lib p (y * 12) (rng st) = (sampled, g')"
    by (cases "johnsonsu_rvs lib p (y * 12) (rng st)")
  let ?st' = "\<lparr>rng = g', calls = calls st @ [RvsCall (y * 12)]\<rparr>"
  from Suc.prems s obtain v where v: "annualize_returns sampled f = Inr v"
    and rec: "run_simulations lib p y f k (acc @ [v]) ?st' = (Inr rates, st')"
    by (auto simp: Let_def split: sum.splits)
  from Suc.IH [OF rec] obtain vals where vals: "rates = (acc @ [v]) @ vals"
    "map (\<lambda>path. annualize_returns path f) (fst (sample_paths lib p (y * 12) k g')) = map Inr vals"
    "rng st' = snd (sample_paths lib p (y * 12) k g')"
    by auto
  have "rates = acc @ (v # vals)"
    using vals(1) by simp
  moreover have "map (\<lambda>path. annualize_returns path f)
      (fst (sample_paths lib p (y * 12) (Suc k) (rng st))) = map Inr (v # vals)"
    using vals(2) v by (simp add: s Let_def)
  moreover have "rng st' = snd (sample_paths lib p (y * 12) (Suc k) (rng st))"
    using vals(3) by (simp add: s Let_def)
  ultimately show ?case by blast
qed

lemma simulate_assets_keys:
  "simulate_assets lib cols n y f tbl st = (Inr out, st') \<Longrightarrow> map fst out = map fst tbl"
proof (induction cols arbitrary: tbl st)
  case Nil
  then show ?case by simp
next
  case (Cons c cols)
  obtain a col where c: "c = (a, col)" by (cases c)
  from Cons.prems show ?case
    unfolding c
    by (auto simp: Let_def loc_set_keys split: option.splits sum.splits prod.splits
        dest!: Cons.IH)
qed

lemma simulate_assets_fit_failure:
  assumes "(asset, col) \<in> set cols" and "johnsonsu_fit lib (dropna col) = None"
  shows "\<exists>e. fst (simulate_assets lib cols n y f tbl st) = Inl e"
  using assms
proof (induction cols arbitrary: tbl st)
  case Nil
  then show ?case by simp
next
  case (Cons c cols)
  obtain a d where c: "c = (a, d)" by (cases c)
  show ?case
  proof (cases "johnsonsu_fit lib (dropna d)")
    case None
    then show ?thesis by (simp add: c)
  next
    case (Some p)
    with Cons.prems c have mem: "(asset, col) \<in> set cols" by auto
    let ?st1 = "\<lparr>rng = rng st, calls = calls st @ [FitCall a]\<rparr>"
    obtain r st2 where rs: "run_simulations lib p y f n [] ?st1 = (r, st2)"
      by (cases "run_simulations lib p y f n [] ?st1")
    show ?thesis
    proof (cases r)
      case (Inl e)
      then show ?thesis by (simp add: c Some rs)
    next
      case (Inr rates)
      then show ?thesis
        using Cons.IH [OF mem Cons.prems(2)] by (simp add: c Some rs)
    qed
  qed
qed

lemma simulate_assets_zero_simulations:
  assumes "\<forall>c \<in> set cols. johnsonsu_fit lib (dropna (snd c)) \<noteq> None"
    and "\<forall>e \<in> set tbl. snd e = NaN"
  shows "simulate_assets lib cols 0 y f tbl st =
           (Inr tbl, \<lparr>rng = rng st, calls = calls st @ map (\<lambda>c. FitCall (fst c)) cols\<rparr>)"
  using assms(1)
proof (induction cols arbitrary: st)
  case Nil
  then show ?case by simp
next
  case (Cons c cols)
  obtain a col where c: "c = (a, col)" by (cases c)
  from Cons.prems c obtain p where p: "johnsonsu_fit lib (dropna col) = Some p"
    by auto
  have rest: "\<forall>c \<in> set cols. johnsonsu_fit lib (dropna (snd c)) \<noteq> None"
    using Cons.prems by simp
  show ?case
    unfolding c
    by (simp add: p np_round_nan loc_set_all_nan [OF assms(2)] Cons.IH [OF rest])
qed

text \<open>
  Columns of another label leave a cell as it is; and a run over \<open>pre @ rest\<close> reaches
  \<open>rest\<close> with the generator in the state \<open>rng_after\<close> computes for \<open>pre\<close>.
\<close>

lemma simulate_assets_untouched:
  assumes "simulate_assets lib cols n y f tbl st = (Inr out, st')"
    and "asset \<notin> fst ` set cols" and "(asset, v) \<in> set out"
  shows "(asset, v) \<in> set tbl"
  using assms
proof (induction cols arbitrary: tbl st)
  case Nil
  then show ?case by simp
next
  case (Cons c cols)
  obtain a col where c: "c = (a, col)" by (cases c)
  let ?st1 = "\<lparr>rng = rng st, calls = calls st @ [FitCall a]\<rparr>"
  from Cons.prems(1) obtain p rates st2 where
    run: "run_simulations lib p y f n [] ?st1 = (Inr rates, st2)"
    and rec: "simulate_assets lib cols n y f
                (loc_set tbl a (np_round (np_mean rates) 2)) st2 = (Inr out, st')"
    unfolding c by (auto simp: Let_def split: option.splits sum.splits prod.splits)
  from Cons.prems(2) c have ne: "asset \<noteq> a" and later: "asset \<notin> fst ` set cols"
    by auto
  from Cons.IH [OF rec later Cons.prems(3)]
  have "(asset, v) \<in> set (loc_set tbl a (np_round (np_mean rates) 2))" .
  with ne show ?case
    by (auto dest: loc_set_cases)
qed

lemma simulate_assets_prefix:
  assumes "simulate_assets lib (pre @ rest) n y f tbl st = (Inr out, st')"
  shows "\<exists>tbl1 st1. rng st1 = rng_after lib pre n y (rng st) \<and>
           simulate_assets lib rest n y f tbl1 st1 = (Inr out, st')"
  using assms
proof (induction pre arbitrary: tbl st)
  case Nil
  then show ?case by auto
next
  case (Cons c pre)
  obtain a col where c: "c = (a, col)" by (cases c)
  let ?st1 = "\<lparr>rng = rng st, calls = calls st @ [FitCall a]\<rparr>"
  from Cons.prems obtain p rates st2 where
    fit: "johnsonsu_fit lib (dropna col) = Some p"
    and run: "run_simulations lib p y f n [] ?st1 = (Inr rates, st2)"
    and rec: "simulate_assets lib (pre @ rest) n y f
                (loc_set tbl a (np_round (np_mean rates) 2)) st2 = (Inr out, st')"
    unfolding c by (auto simp: Let_def split: option.splits sum.splits prod.splits)
  from run_simulations_sampled [OF run]
  have g2: "rng st2 = snd (sample_paths lib p (y * 12) n (rng st))"
    by auto
  from Cons.IH [OF rec] obtain tbl1 st1 where
    "rng st1 = rng_after lib pre n y (rng st2)"
    "simulate_assets lib rest n y f tbl1 st1 = (Inr out, st')"
    by blast
  then show ?case
    unfolding c by (auto simp: fit g2)
qed

section \<open>Claims about the orchestrator: reproducibility and sampling\<close>

text \<open>
  C1. Two calls of the orchestrator with the same table, counts, frequency and the same
  integer seed give the same output (and make the same library calls), whatever state the
  process-wide generator was in before each call: \<open>g\<close> and \<open>g'\<close> are the two states. With no
  seed the two runs need not match: on the library double, started from generator states
  0 and 1, the same unseeded call returns two different tables.
\<close>

theorem seeded_runs_identical:
  "fst (simulate_asset_class_returns_jsu lib returns num_simulations num_years frequency
          (Some s) g) =
   fst (simulate_asset_class_returns_jsu lib returns num_simulations num_years frequency
          (Some s) g') \<and>
   calls (snd (simulate_asset_class_returns_jsu lib returns num_simulations num_years frequency
          (Some s) g)) =
   calls (snd (simulate_asset_class_returns_jsu lib returns num_simulations num_years frequency
          (Some s) g')) \<and>
   fst (simulate_asset_class_returns_jsu counter_lib [(''A'', [Some 0, Some 0])] 1 1 ''M''
          None 0) \<noteq>
   fst (simulate_asset_class_returns_jsu counter_lib [(''A'', [Some 0, Some 0])] 1 1 ''M''
          None 1)"
proof -
  have "fst (simulate_asset_class_returns_jsu counter_lib [(''A'', [Some 0, Some 0])] 1 1 ''M''
          None 0) = Inr [(''A'', Num 0)]"
    by (simp add: run_defs)
  moreover have "fst (simulate_asset_class_returns_jsu counter_lib [(''A'', [Some 0, Some 0])]
          1 1 ''M'' None 1) = Inr [(''A'', Num 100)]"
    by (simp add: run_defs)
  ultimately show ?thesis
    by (simp add: simulate_asset_class_returns_jsu_def np_random_seed_def)
qed

text \<open>
  C2. The claim is that every sampled path has \<open>num_years\<close> times the periods per year of
  the frequency (252 for daily). Line 277 asks the sampler for \<^verbatim>\<open>num_years * 12\<close> values
  whatever the frequency: a daily run over one year requests 12 values, not 252.
\<close>

theorem daily_run_samples_twelve_per_year:
  "calls (snd (simulate_asset_class_returns_jsu counter_lib [(''A'', [Some 0, Some 0])] 1 1 ''D''
          (Some 1) 0)) = [FitCall ''A'', RvsCall 12] \<and> (12 :: nat) \<noteq> 1 * 252"
  by (simp add: run_defs)

section \<open>Claims about errors in the orchestrator\<close>

text \<open>
  C3, as the code has it. The frequency is only examined inside the annualizer. With an
  unsupported frequency, an accepted seed, at least one simulation and a first column whose
  fit succeeds, the run ends with the unsupported-frequency error after exactly one fit
  and one sampling call, the generator advanced by that one sample.
\<close>

theorem unsupported_frequency_raised_at_first_annualization:
  assumes "frequency \<noteq> ''M''" and "frequency \<noteq> ''D''" and "frequency \<noteq> ''Q''"
    and "0 < num_simulations"
    and "np_random_seed lib random_seed g = Inr g0"
    and "johnsonsu_fit lib (dropna col) = Some p"
  shows "simulate_asset_class_returns_jsu lib ((asset, col) # rest) num_simulations num_years
           frequency random_seed g =
         (Inl ValueError_unsupported_frequency,
          \<lparr>rng = snd (johnsonsu_rvs lib p (num_years * 12) g0),
           calls = [FitCall asset, RvsCall (num_years * 12)]\<rparr>)"
proof -
  from assms(4) obtain k where n: "num_simulations = Suc k"
    by (cases num_simulations) auto
  show ?thesis
    unfolding simulate_asset_class_returns_jsu_def n
    by (simp add: assms(5,6) run_simulations_unsupported [OF assms(1-3)]
        del: run_simulations.simps)
qed

text \<open>C3 on a two-column table, two simulations, frequency \<open>W\<close> and seed 7.\<close>

theorem unsupported_frequency_raised_at_first_annualization_witness:
  "simulate_asset_class_returns_jsu counter_lib
     [(''A'', [Some 0, Some 0]), (''B'', [Some 0, Some 0])] 2 1 ''W'' (Some 7) 0 =
   (Inl ValueError_unsupported_frequency, \<lparr>rng = 8, calls = [FitCall ''A'', RvsCall 12]\<rparr>)"
  using unsupported_frequency_raised_at_first_annualization
    [of "''W''" 2 counter_lib "Some 7" 0 7 "[Some 0, Some 0]" "(0, 1, 0, 1)" "''A''"
        "[(''B'', [Some 0, Some 0])]" 1]
  by (simp add: np_random_seed_def counter_lib_def dropna_def List.map_filter_def)

text \<open>
  The specification's wording of C3 (no fit and no sampling call before the error) fails:
  with frequency \<open>W\<close> the error comes after a fit and a sample of 12 values.
\<close>

theorem unsupported_frequency_fits_and_samples_first:
  "simulate_asset_class_returns_jsu counter_lib [(''A'', [Some 0, Some 0])] 1 1 ''W'' (Some 1) 0 =
     (Inl ValueError_unsupported_frequency, \<lparr>rng = 2, calls = [FitCall ''A'', RvsCall 12]\<rparr>)"
  by (simp add: run_defs)

text \<open>
  C4, as the code has it. Nothing catches an exception: when the fit fails for any asset
  class of the table, the run ends with an error and returns no table at all.
\<close>

theorem fit_failure_aborts_run:
  assumes "(asset, col) \<in> set returns" and "johnsonsu_fit lib (dropna col) = None"
  shows "\<exists>e. fst (simulate_asset_class_returns_jsu lib returns num_simulations num_years
                     frequency random_seed g) = Inl e"
proof (cases "np_random_seed lib random_seed g")
  case (Inl e)
  then show ?thesis by (simp add: simulate_asset_class_returns_jsu_def)
next
  case (Inr g0)
  then show ?thesis
    using simulate_assets_fit_failure [OF assms]
    by (simp add: simulate_asset_class_returns_jsu_def)
qed

text \<open>C4 on a table whose second column is too short for the double's fit.\<close>

theorem fit_failure_aborts_run_witness:
  "\<exists>e. fst (simulate_asset_class_returns_jsu counter_lib
              [(''A'', [Some 0, Some 0]), (''B'', [Some 1])] 3 1 ''M'' None 0) = Inl e"
  by (rule fit_failure_aborts_run [of "''B''" "[Some 1]"])
    (simp_all add: counter_lib_def dropna_def List.map_filter_def)

text \<open>
  The specification's wording of C4 (a partial table with a failure marker, the other
  asset classes completed) fails: the fit of the first column fails, the run ends there
  with the error, and the second column is never fitted.
\<close>

theorem fit_failure_returns_no_partial_table:
  "simulate_asset_class_returns_jsu counter_lib
     [(''A'', [Some 0]), (''B'', [Some 0, Some 0])] 1 1 ''M'' (Some 1) 0 =
   (Inl FitError, \<lparr>rng = 1, calls = [FitCall ''A'']\<rparr>)"
  by (simp add: run_defs)

section \<open>Claims about the annualizer\<close>

text \<open>
  C5, as the code has it. The annualizer has no check on the period returns. For a path
  with a period return of at most -1 and a supported frequency it raises nothing and
  returns a value; when that period return is exactly -1 the value is -100.0.
\<close>

theorem annualize_no_invalid_path_error:
  assumes "r \<in> set path" and "r \<le> - 1"
    and "frequency = ''M'' \<or> frequency = ''D'' \<or> frequency = ''Q''"
  shows "\<exists>v. annualize_returns path frequency = Inr v \<and> (r = - 1 \<longrightarrow> v = Num (- 100))"
proof (cases "r = - 1")
  case True
  then have "annualize_with p path = Inr (Num (- 100))" for p
    using assms(1) by (simp add: annualize_with_total_loss)
  with assms(3) True show ?thesis
    by (auto simp: annualize_returns_def)
next
  case False
  have "path \<noteq> []"
    using assms(1) by auto
  then have "\<exists>v. annualize_with p path = Inr v" for p
    by (rule annualize_with_defined)
  with assms(3) False show ?thesis
    by (auto simp: annualize_returns_def)
qed

text \<open>C5 on a daily path of three returns, the second one -1.\<close>

theorem annualize_no_invalid_path_error_witness:
  "\<exists>v. annualize_returns [1 / 2, - 1, 3] ''D'' = Inr v \<and> v = Num (- 100)"
  using annualize_no_invalid_path_error [of "- 1" "[1 / 2, - 1, 3]" "''D''"] by simp

text \<open>
  The specification's wording of C5 (an error, never a number) fails: the one-period path
  with return -1 is annualized to -100.0.
\<close>

theorem total_loss_path_returns_number:
  "- 1 \<in> set [- 1 :: real] \<and> annualize_returns [- 1] ''M'' = Inr (Num (- 100))"
  by (simp add: run_defs)

text \<open>
  C6, as the code has it. For every non-empty path with non-negative compounded growth and
  every supported frequency, the annualizer returns the specification's formula as a
  percentage (times 100) rounded to two decimals.
\<close>

theorem annualize_returns_percent_rounded:
  assumes "path \<noteq> []" and "0 \<le> prod_list (map (\<lambda>r. r + 1) path)"
    and "(frequency, p) = (''M'', 12) \<or> (frequency, p) = (''D'', 252) \<or>
         (frequency, p) = (''Q'', 4)"
  shows "annualize_returns path frequency =
           Inr (np_round (Num (100 * spec_annualize path p)) 2)"
  using assms(3) annualize_with_nonneg [OF assms(1,2)]
  by (auto simp: annualize_returns_def)

text \<open>C6 on a quarterly path of four periods.\<close>

theorem annualize_returns_percent_rounded_witness:
  "annualize_returns [1, 0, 0, 0] ''Q'' =
     Inr (np_round (Num (100 * spec_annualize [1, 0, 0, 0] 4)) 2)"
  using annualize_returns_percent_rounded [of "[1, 0, 0, 0]" "''Q''" 4] by simp

text \<open>
  The specification's wording of C6 (the formula itself is returned) fails: a quarterly
  path that doubles over one year has formula value 1 and is annualized to 100.0; and a
  path with negative growth under a fractional exponent is annualized to \<open>nan\<close>.
\<close>

theorem annualize_returns_differs_from_formula:
  "annualize_returns [1, 0, 0, 0] ''Q'' = Inr (Num 100) \<and>
   spec_annualize [1, 0, 0, 0] 4 = 1 \<and>
   annualize_returns [- 2, 0, 0, 0, 0] ''M'' = Inr NaN"
  by (simp add: run_defs spec_annualize_def)

text \<open>
  C7, as the code has it. Rounding happens twice. Take a returned table and an asset class
  whose label no later column carries. Its cell is the arithmetic mean, rounded to two
  decimals, of exactly the \<open>num_simulations\<close> per-path values of this run: the annualizer's
  results, in order, on the paths sampled for this asset class with its fitted parameters,
  starting from the generator state the earlier columns left behind. And each per-path
  value is already rounded to two decimals: rounding it again leaves it unchanged.
\<close>

theorem cell_is_rounded_mean_of_rounded_path_values:
  assumes "fst (simulate_asset_class_returns_jsu lib (pre @ (asset, col) # post)
                  num_simulations num_years frequency random_seed g) = Inr out"
    and "asset \<notin> fst ` set post"
    and "(asset, v) \<in> set out"
  shows "\<exists>g0 p rates.
           np_random_seed lib random_seed g = Inr g0 \<and>
           johnsonsu_fit lib (dropna col) = Some p \<and>
           map (\<lambda>path. annualize_returns path frequency)
             (fst (sample_paths lib p (num_years * 12) num_simulations
                     (rng_after lib pre num_simulations num_years g0))) = map Inr rates \<and>
           length rates = num_simulations \<and>
           (\<forall>r \<in> set rates. np_round r 2 = r) \<and>
           v = np_round (np_mean rates) 2"
proof -
  let ?returns = "pre @ (asset, col) # post"
  let ?init = "map (\<lambda>(asset, col). (asset, NaN)) ?returns"
  from assms(1) obtain g0 st' where seed: "np_random_seed lib random_seed g = Inr g0"
    and run: "simulate_assets lib ?returns num_simulations num_years frequency ?init
       \<lparr>rng = g0, calls = []\<rparr> = (Inr out, st')"
    by (auto simp: simulate_asset_class_returns_jsu_def fst_def split: sum.splits prod.splits)
  from simulate_assets_prefix [OF run] obtain tbl1 st1 where
    g1: "rng st1 = rng_after lib pre num_simulations num_years g0"
    and here: "simulate_assets lib ((asset, col) # post) num_simulations num_years frequency
                 tbl1 st1 = (Inr out, st')"
    by auto
  let ?st1 = "\<lparr>rng = rng st1, calls = calls st1 @ [FitCall asset]\<rparr>"
  from here obtain p rates st2 where
    fit: "johnsonsu_fit lib (dropna col) = Some p"
    and sims: "run_simulations lib p num_years frequency num_simulations [] ?st1 =
                 (Inr rates, st2)"
    and rec: "simulate_assets lib post num_simulations num_years frequency
                (loc_set tbl1 asset (np_round (np_mean rates) 2)) st2 = (Inr out, st')"
    by (auto simp: Let_def split: option.splits sum.splits prod.splits)
  let ?paths = "fst (sample_paths lib p (num_years * 12) num_simulations
                       (rng_after lib pre num_simulations num_years g0))"
  from run_simulations_sampled [OF sims] g1
  have m: "map (\<lambda>path. annualize_returns path frequency) ?paths = map Inr rates"
    by auto
  from arg_cong [OF m, of length] have len: "length rates = num_simulations"
    by (simp add: length_sample_paths)
  have rounded: "\<forall>r \<in> set rates. np_round r 2 = r"
  proof
    fix r
    assume "r \<in> set rates"
    then have "Inr r \<in> set (map (\<lambda>path. annualize_returns path frequency) ?paths)"
      unfolding m by simp
    then obtain path where "annualize_returns path frequency = Inr r"
      by auto
    then show "np_round r 2 = r"
      by (rule annualize_returns_rounded)
  qed
  from simulate_assets_untouched [OF rec assms(2,3)]
  have "v = np_round (np_mean rates) 2"
    by (auto dest: loc_set_cases)
  with seed fit m len rounded show ?thesis
    by blast
qed

text \<open>
  C7 on a two-column run of two simulations: the second cell, 350.0, is the rounded mean of
  the per-path values 300.0 and 400.0 sampled after the first column's two paths.
\<close>

theorem cell_is_rounded_mean_of_rounded_path_values_witness:
  "fst (simulate_asset_class_returns_jsu counter_lib
          ([(''A'', [Some 0, Some 0])] @ (''B'', [None, Some 1, Some 2]) # []) 2 1 ''M''
          (Some 1) 0) = Inr [(''A'', Num 150), (''B'', Num 350)] \<and>
   Num 350 = np_round (np_mean [Num 300, Num 400]) 2"
proof -
  have h: "fst (simulate_asset_class_returns_jsu counter_lib
          ([(''A'', [Some 0, Some 0])] @ (''B'', [None, Some 1, Some 2]) # []) 2 1 ''M''
          (Some 1) 0) = Inr [(''A'', Num 150), (''B'', Num 350)]"
    by (simp add: run_defs numeral_2_eq_2)
  have n: "''B'' \<notin> fst ` set ([] :: returns_table)"
    by simp
  have m: "(''B'', Num 350) \<in> set [(''A'', Num 150), (''B'', Num 350)]"
    by simp
  from cell_is_rounded_mean_of_rounded_path_values [OF h n m]
  obtain g0 p rates where
    seed: "np_random_seed counter_lib (Some 1) 0 = Inr g0"
    and fit: "johnsonsu_fit counter_lib (dropna [None, Some 1, Some 2]) = Some p"
    and paths: "map (\<lambda>path. annualize_returns path ''M'')
             (fst (sample_paths counter_lib p (1 * 12) 2
                     (rng_after counter_lib [(''A'', [Some 0, Some 0])] 2 1 g0))) = map Inr rates"
    and cell: "Num 350 = np_round (np_mean rates) 2"
    by blast
  from seed have g0: "g0 = 1"
    by (simp add: np_random_seed_def counter_lib_def)
  from paths have "rates = [Num 300, Num 400]"
    unfolding g0
    by (simp add: run_defs numeral_2_eq_2 map_eq_Cons_conv eq_commute [of "_ # _"])
  with cell h show ?thesis by simp
qed

text \<open>
  The specification's wording of C7 (the annualizer returns an unrounded number) fails: a
  quarterly path with formula value 0.00001 is annualized to 0.0, the rounding of 0.001
  percent.
\<close>

theorem annualize_returns_rounds_each_path:
  "annualize_returns [1 / 100000, 0, 0, 0] ''Q'' = Inr (Num 0) \<and>
   spec_annualize [1 / 100000, 0, 0, 0] 4 = 1 / 100000"
  by (simp add: run_defs spec_annualize_def)

text \<open>
  C8. For every non-empty path all of whose period returns are 0 and every supported
  frequency (12, 252 or 4 periods per year), the annualizer yields exactly 0.0, whatever
  the length of the path.
\<close>

theorem annualize_all_zero_path:
  assumes "path \<noteq> []" and "\<And>r. r \<in> set path \<Longrightarrow> r = 0"
    and "frequency = ''M'' \<or> frequency = ''D'' \<or> frequency = ''Q''"
  shows "annualize_returns path frequency = Inr (Num 0)"
proof -
  have g: "prod_list (map (\<lambda>r. r + 1) path) = 1"
    using assms(2) by (rule prod_list_all_one)
  have w: "annualize_with p path = Inr (Num 0)" for p
    using assms(1) by (simp add: annualize_with_def g np_power_def np_sub_def np_mul_def
        np_round_def rint_zero)
  from assms(3) show ?thesis
    by (auto simp: annualize_returns_def w)
qed

text \<open>C8 on a daily path of three zero returns.\<close>

theorem annualize_all_zero_path_witness:
  "annualize_returns [0, 0, 0] ''D'' = Inr (Num 0)"
  using annualize_all_zero_path [of "[0, 0, 0]" "''D''"] by simp

section \<open>Claims about the output table\<close>

text \<open>
  C9. Whenever the orchestrator returns a table, its index is the list of the input
  table's column labels: one cell per column, same labels, same order.
\<close>

theorem output_index_is_input_columns:
  assumes "fst (simulate_asset_class_returns_jsu lib returns num_simulations num_years
                  frequency random_seed g) = Inr out"
  shows "map fst out = map fst returns"
proof -
  let ?init = "map (\<lambda>(asset, col). (asset, NaN)) returns"
  have k: "map fst ?init = map fst returns"
    by (induction returns) auto
  from assms obtain g0 st' where
    "simulate_assets lib returns num_simulations num_years frequency ?init
       \<lparr>rng = g0, calls = []\<rparr> = (Inr out, st')"
    by (auto simp: simulate_asset_class_returns_jsu_def fst_def split: sum.splits prod.splits)
  then have "map fst out = map fst ?init"
    by (rule simulate_assets_keys)
  with k show ?thesis by simp
qed

text \<open>C9 on a two-column table, the second column with a missing value.\<close>

theorem output_index_is_input_columns_witness:
  "fst (simulate_asset_class_returns_jsu counter_lib
          [(''A'', [Some 0, Some 0]), (''B'', [None, Some 1, Some 2])] 1 1 ''M'' (Some 1) 0) =
     Inr [(''A'', Num 100), (''B'', Num 200)] \<and>
   map fst [(''A'', Num 100), (''B'', Num 200)] =
   map fst [(''A'', [Some 0, Some 0]), (''B'', [None, Some 1, Some (2 :: real)])]"
proof -
  have h: "fst (simulate_asset_class_returns_jsu counter_lib
          [(''A'', [Some 0, Some 0]), (''B'', [None, Some 1, Some 2])] 1 1 ''M'' (Some 1) 0) =
     Inr [(''A'', Num 100), (''B'', Num 200)]"
    by (simp add: run_defs)
  from output_index_is_input_columns [OF h] h show ?thesis by blast
qed

text \<open>
  C10, as the code has it. With \<open>num_simulations = 0\<close> the loop of lines 275-286 never runs,
  so the annualizer and its frequency check are never reached. When the seed is absent or
  accepted and the fit of every column succeeds, the orchestrator raises nothing and
  returns the table with \<open>nan\<close> in every cell, the rounded mean of an empty list, whatever
  the frequency.
\<close>

theorem zero_simulations_gives_nan_table:
  assumes "\<forall>(asset, col) \<in> set returns. johnsonsu_fit lib (dropna col) \<noteq> None"
    and "np_random_seed lib random_seed g = Inr g0"
  shows "fst (simulate_asset_class_returns_jsu lib returns 0 num_years frequency random_seed g) =
           Inr (map (\<lambda>(asset, col). (asset, NaN)) returns)"
proof -
  have fits: "\<forall>c \<in> set returns. johnsonsu_fit lib (dropna (snd c)) \<noteq> None"
    using assms(1) by auto
  have nan: "\<forall>e \<in> set (map (\<lambda>(asset, col). (asset, NaN)) returns). snd e = NaN"
    by auto
  show ?thesis
    by (simp add: simulate_asset_class_returns_jsu_def assms(2)
        simulate_assets_zero_simulations [OF fits nan])
qed

text \<open>C10 on a two-column table, horizon 5, frequency \<open>W\<close> and seed 3.\<close>

theorem zero_simulations_gives_nan_table_witness:
  "fst (simulate_asset_class_returns_jsu counter_lib
          [(''A'', [Some 0, Some 0]), (''B'', [None, Some 1, Some 2])] 0 5 ''W'' (Some 3) 0) =
     Inr [(''A'', NaN), (''B'', NaN)]"
  using zero_simulations_gives_nan_table
    [of "[(''A'', [Some 0, Some 0]), (''B'', [None, Some 1, Some 2])]" counter_lib "Some 3" 0 3
        5 "''W''"]
  by (simp add: np_random_seed_def counter_lib_def dropna_def List.map_filter_def)

text \<open>
  The specification's wording of C10 (no error is raised) fails: the seeding of line 258
  and the fit of line 269 run before the simulation loop and still raise with
  \<open>num_simulations = 0\<close>, here for a column too short to fit and for the seed -1.
\<close>

theorem zero_simulations_can_still_raise:
  "fst (simulate_asset_class_returns_jsu counter_lib [(''A'', [Some 0])] 0 1 ''M'' None 0) =
     Inl FitError \<and>
   fst (simulate_asset_class_returns_jsu counter_lib [(''A'', [Some 0, Some 0])] 0 1 ''M''
          (Some (- 1)) 0) = Inl ValueError_seed"
  by (simp add: run_defs)


end
